theory Spec2Isabelle
  imports Main
begin

section \<open>Data model\<close>

text \<open>
  The Prisma rows the worker reads and writes (\<^verbatim>\<open>ContentPost\<close>, \<^verbatim>\<open>SocialAccount\<close>),
  with the fields \<^verbatim>\<open>src/jobs/postProcessor.js\<close> and \<^verbatim>\<open>src/routes/posts.js\<close> touch.
  Timestamps are milliseconds since the epoch; a nullable column is an \<open>option\<close>.
  A platform is kept as the string the code compares and switches on, so that the
  \<^verbatim>\<open>default\<close> branch of the switch is part of the model.
\<close>

datatype post_status = DRAFT | SCHEDULED | PUBLISHED | FAILED

record post =
  userId :: string
  title :: "string option"
  content :: string
  mediaUrls :: "string list"
  platforms :: "string list"
  status :: post_status
  scheduledFor :: "int option"
  publishedAt :: "int option"

record account =
  platform :: string
  accessToken :: string
  expiresAt :: "int option"
  isActive :: bool

text \<open>
  A thrown JavaScript error: \<^verbatim>\<open>error.message\<close> and, for an axios error that carries
  a response, \<^verbatim>\<open>error.response.data.message\<close>.
\<close>

datatype js_error = JsError (message: string) (response_message: "string option")

datatype http_method = GET | POST

datatype body =
    NoBody
  | RegisterUpload (owner: string)
  | FileBuffer string
  | UgcPost (author: string) (commentary: string) (media: "(string \<times> string \<times> string) option")

record request =
  http_method :: http_method
  url :: string
  headers :: "(string \<times> string) list"
  data :: body

text \<open>The fields of \<^verbatim>\<open>response.data\<close> that the LinkedIn publisher reads.\<close>

record response =
  data_id :: string
  data_uploadUrl :: string
  data_asset :: string

text \<open>What \<^verbatim>\<open>publishToLinkedIn\<close> returns on success.\<close>

record publish_result =
  platformPostId :: string
  result_url :: string
  result_publishedAt :: int

text \<open>
  One entry of the worker's \<^verbatim>\<open>results\<close> array:
  \<^verbatim>\<open>{ platform, status: 'success', ...publishResult }\<close> or
  \<^verbatim>\<open>{ platform, status: 'error', error }\<close>.
\<close>

datatype platform_result =
    ResultSuccess string publish_result
  | ResultError string string

fun result_platform :: "platform_result \<Rightarrow> string" where
  "result_platform (ResultSuccess p _) = p"
| "result_platform (ResultError p _) = p"

fun result_status :: "platform_result \<Rightarrow> string" where
  "result_status (ResultSuccess _ _) = ''success''"
| "result_status (ResultError _ _) = ''error''"

text \<open>
  What the job handler returns to the queue: \<^verbatim>\<open>{ status: 'already_published' }\<close> or
  \<^verbatim>\<open>{ postId, results, status }\<close>.
\<close>

datatype job_return =
    AlreadyPublished
  | Completed string "platform_result list" string

record job =
  job_id :: string
  job_name :: string
  postId :: string

section \<open>The world outside the handler\<close>

text \<open>
  The state a job execution reads and changes: the \<^verbatim>\<open>contentPost\<close> table, the
  \<^verbatim>\<open>socialAccounts\<close> of each user, and the log of every HTTP request sent through axios,
  oldest first.
\<close>

record world =
  contentPost :: "string \<rightharpoonup> post"
  socialAccounts :: "string \<Rightarrow> account list"
  calls :: "request list"

text \<open>
  What the handler cannot decide itself is a parameter: the clock (one execution is
  taken at one instant, every \<^verbatim>\<open>new Date()\<close> reads \<open>now\<close>), the answer of the remote
  API to a request given the requests sent before it (\<open>Inl\<close> when the awaited call
  rejects or its response cannot be read), the file system, and whether a database
  operation throws.
\<close>

datatype db_op = FindUnique | UpdateOutcome | UpdateFailed

record env =
  now :: int
  axios :: "request list \<Rightarrow> request \<Rightarrow> js_error + response"
  readFileSync :: "string \<Rightarrow> js_error + string"
  prisma_error :: "db_op \<Rightarrow> js_error option"

section \<open>Await, throw and catch\<close>

type_synonym 'a action = "world \<Rightarrow> (js_error + 'a) \<times> world"

definition ret :: "'a \<Rightarrow> 'a action" where
  "ret a w = (Inr a, w)"

definition throw :: "js_error \<Rightarrow> 'a action" where
  "throw e w = (Inl e, w)"

definition await :: "'a action \<Rightarrow> ('a \<Rightarrow> 'b action) \<Rightarrow> 'b action" where
  "await m f w = (case m w of (Inl e, w') \<Rightarrow> (Inl e, w') | (Inr a, w') \<Rightarrow> f a w')"

definition try_catch :: "'a action \<Rightarrow> (js_error \<Rightarrow> 'a action) \<Rightarrow> 'a action" where
  "try_catch m h w = (case m w of (Inl e, w') \<Rightarrow> h e w' | (Inr a, w') \<Rightarrow> (Inr a, w'))"

text \<open>An axios call: the request is logged, then answered by the remote side.\<close>

definition axios_request :: "env \<Rightarrow> request \<Rightarrow> response action" where
  "axios_request en rq w = (axios en (calls w) rq, w\<lparr>calls := calls w @ [rq]\<rparr>)"

definition axios_get :: "env \<Rightarrow> string \<Rightarrow> (string \<times> string) list \<Rightarrow> response action" where
  "axios_get en u hs = axios_request en \<lparr>http_method = GET, url = u, headers = hs, data = NoBody\<rparr>"

definition axios_post :: "env \<Rightarrow> string \<Rightarrow> body \<Rightarrow> (string \<times> string) list \<Rightarrow> response action" where
  "axios_post en u b hs = axios_request en \<lparr>http_method = POST, url = u, headers = hs, data = b\<rparr>"

text \<open>JavaScript's \<^verbatim>\<open>a || b\<close> on a nullable string: the empty string is falsy too.\<close>

definition or_else :: "string option \<Rightarrow> string \<Rightarrow> string" where
  "or_else a b = (case a of None \<Rightarrow> b | Some s \<Rightarrow> if s = [] then b else s)"

section \<open>Platform publishers\<close>

definition LINKEDIN_apiUrl :: string where
  "LINKEDIN_apiUrl = ''https://api.linkedin.com/v2''"

definition getUserId :: "env \<Rightarrow> string \<Rightarrow> string action" where
  "getUserId en token =
     await (axios_get en (LINKEDIN_apiUrl @ ''/me'') [(''Authorization'', ''Bearer '' @ token)])
       (\<lambda>rsp. ret (data_id rsp))"

text \<open>
  \<^verbatim>\<open>uploadMediaToLinkedIn\<close>: the request body is built before \<^verbatim>\<open>axios.post\<close> is
  called, so \<^verbatim>\<open>getUserId\<close> runs first; its \<^verbatim>\<open>catch\<close> logs and rethrows the same error.
\<close>

definition uploadMediaToLinkedIn :: "env \<Rightarrow> string \<Rightarrow> string \<Rightarrow> string action" where
  "uploadMediaToLinkedIn en mediaPath token =
     try_catch
       (await (getUserId en token) (\<lambda>uid.
        await (axios_post en (LINKEDIN_apiUrl @ ''/assets?action=registerUpload'')
                 (RegisterUpload (''urn:li:person:'' @ uid))
                 [(''Authorization'', ''Bearer '' @ token), (''Content-Type'', ''application/json'')])
          (\<lambda>registerResponse.
        (case readFileSync en mediaPath of
           Inl e \<Rightarrow> throw e
         | Inr fileBuffer \<Rightarrow>
             await (axios_post en (data_uploadUrl registerResponse) (FileBuffer fileBuffer)
                      [(''Authorization'', ''Bearer '' @ token),
                       (''Content-Type'', ''application/octet-stream'')])
               (\<lambda>_. ret (data_asset registerResponse))))))
       (\<lambda>error. throw error)"

definition token_expired :: "env \<Rightarrow> account \<Rightarrow> bool" where
  "token_expired en acc = (case expiresAt acc of None \<Rightarrow> False | Some t \<Rightarrow> now en \<ge> t)"

definition publishToLinkedIn :: "env \<Rightarrow> post \<Rightarrow> account \<Rightarrow> publish_result action" where
  "publishToLinkedIn en p acc =
     try_catch
       (if token_expired en acc then throw (JsError ''LinkedIn access token expired'' None)
        else
          let hs = [(''Authorization'', ''Bearer '' @ accessToken acc),
                    (''Content-Type'', ''application/json''),
                    (''X-Restli-Protocol-Version'', ''2.0.0'')]
          in
          await (axios_get en (LINKEDIN_apiUrl @ ''/me'') hs) (\<lambda>profileResponse.
          let personUrn = ''urn:li:person:'' @ data_id profileResponse in
          await
            (if mediaUrls p \<noteq> [] then
               await (uploadMediaToLinkedIn en (hd (mediaUrls p)) (accessToken acc)) (\<lambda>mediaUrn.
                 ret (UgcPost personUrn (content p)
                        (Some (mediaUrn,
                               or_else (title p) ''Shared via Social Media Automation'',
                               or_else (title p) ''Social Media Post''))))
             else ret (UgcPost personUrn (content p) None))
            (\<lambda>postData.
          await (axios_post en (LINKEDIN_apiUrl @ ''/ugcPosts'') postData hs) (\<lambda>rsp.
            ret \<lparr>platformPostId = data_id rsp,
                 result_url = ''https://linkedin.com/feed/update/'' @ data_id rsp,
                 result_publishedAt = now en\<rparr>))))
       (\<lambda>error. throw (JsError (''LinkedIn publishing failed: ''
                                  @ or_else (response_message error) (message error)) None))"

text \<open>The placeholders for the other platforms throw at once.\<close>

definition publishToInstagram :: "env \<Rightarrow> post \<Rightarrow> account \<Rightarrow> publish_result action" where
  "publishToInstagram en p acc = throw (JsError ''Instagram publishing not yet implemented'' None)"

definition publishToTikTok :: "env \<Rightarrow> post \<Rightarrow> account \<Rightarrow> publish_result action" where
  "publishToTikTok en p acc = throw (JsError ''TikTok publishing not yet implemented'' None)"

definition publishToFacebook :: "env \<Rightarrow> post \<Rightarrow> account \<Rightarrow> publish_result action" where
  "publishToFacebook en p acc = throw (JsError ''Facebook publishing not yet implemented'' None)"

section \<open>The job handler\<close>

text \<open>The \<^verbatim>\<open>switch (platform)\<close> of the worker.\<close>

definition dispatch :: "env \<Rightarrow> string \<Rightarrow> post \<Rightarrow> account \<Rightarrow> publish_result action" where
  "dispatch en pf p acc =
     (if pf = ''LINKEDIN'' then publishToLinkedIn en p acc
      else if pf = ''INSTAGRAM'' then publishToInstagram en p acc
      else if pf = ''TIKTOK'' then publishToTikTok en p acc
      else if pf = ''FACEBOOK'' then publishToFacebook en p acc
      else throw (JsError (''Platform '' @ pf @ '' not supported'') None))"

text \<open>
  One iteration of \<^verbatim>\<open>for (const platform of post.platforms)\<close>: look the account up,
  call the publisher inside \<^verbatim>\<open>try\<close>, and produce the entry pushed onto \<^verbatim>\<open>results\<close>.
\<close>

definition publishOne :: "env \<Rightarrow> post \<Rightarrow> account list \<Rightarrow> string \<Rightarrow> world \<Rightarrow> platform_result \<times> world" where
  "publishOne en p accs pf w =
     (case find (\<lambda>acc. platform acc = pf \<and> isActive acc) accs of
        None \<Rightarrow> (ResultError pf ''No active account'', w)
      | Some acc \<Rightarrow>
          (case dispatch en pf p acc w of
             (Inr publishResult, w') \<Rightarrow> (ResultSuccess pf publishResult, w')
           | (Inl error, w') \<Rightarrow> (ResultError pf (message error), w')))"

fun publishLoop :: "env \<Rightarrow> post \<Rightarrow> account list \<Rightarrow> string list \<Rightarrow> world \<Rightarrow> platform_result list \<times> world" where
  "publishLoop en p accs [] w = ([], w)"
| "publishLoop en p accs (pf # pfs) w =
     (case publishOne en p accs pf w of
        (r, w1) \<Rightarrow> (case publishLoop en p accs pfs w1 of (rs, w2) \<Rightarrow> (r # rs, w2)))"

text \<open>
  \<^verbatim>\<open>prisma.contentPost.findUnique\<close> with the user's active accounts included, and
  \<^verbatim>\<open>prisma.contentPost.update\<close>, which throws when the row does not exist.
\<close>

definition activeAccounts :: "world \<Rightarrow> post \<Rightarrow> account list" where
  "activeAccounts w p = filter isActive (socialAccounts w (userId p))"

definition findUnique :: "env \<Rightarrow> string \<Rightarrow> (post \<times> account list) option action" where
  "findUnique en pid w =
     (case prisma_error en FindUnique of
        Some e \<Rightarrow> (Inl e, w)
      | None \<Rightarrow> (Inr (map_option (\<lambda>p. (p, activeAccounts w p)) (contentPost w pid)), w))"

definition update :: "env \<Rightarrow> db_op \<Rightarrow> string \<Rightarrow> (post \<Rightarrow> post) \<Rightarrow> unit action" where
  "update en op pid f w =
     (case prisma_error en op of
        Some e \<Rightarrow> (Inl e, w)
      | None \<Rightarrow>
          (case contentPost w pid of
             None \<Rightarrow> (Inl (JsError ''Record to update not found.'' None), w)
           | Some p \<Rightarrow> (Inr (), w\<lparr>contentPost := (contentPost w)(pid \<mapsto> f p)\<rparr>)))"

definition is_error :: "platform_result \<Rightarrow> bool" where
  "is_error r = (result_status r = ''error'')"

text \<open>The body of the outer \<^verbatim>\<open>try\<close>.\<close>

definition process :: "env \<Rightarrow> string \<Rightarrow> job_return action" where
  "process en pid =
     await (findUnique en pid) (\<lambda>found.
       case found of
         None \<Rightarrow> throw (JsError (''Post '' @ pid @ '' not found'') None)
       | Some (p, accs) \<Rightarrow>
           if status p = PUBLISHED then ret AlreadyPublished
           else (\<lambda>w.
             case publishLoop en p accs (platforms p) w of
               (results, w1) \<Rightarrow>
                 let hasErrors = list_ex is_error results;
                     allFailed = list_all is_error results
                 in await (update en UpdateOutcome pid
                             (\<lambda>row. row\<lparr>status := (if allFailed then FAILED else PUBLISHED),
                                         publishedAt := (if allFailed then None else Some (now en))\<rparr>))
                      (\<lambda>_. ret (Completed pid results
                                  (if allFailed then ''failed''
                                   else if hasErrors then ''partial_success'' else ''success'')))
                      w1))"

text \<open>
  The handler: the outer \<^verbatim>\<open>catch\<close> tries to mark the post \<^verbatim>\<open>FAILED\<close> (an error of
  that update is only logged) and rethrows. \<open>Inl\<close> is a job reported failed to the queue,
  \<open>Inr\<close> a completed job.
\<close>

definition postWorker :: "env \<Rightarrow> job \<Rightarrow> job_return action" where
  "postWorker en j =
     try_catch (process en (postId j))
       (\<lambda>error w.
          let w' = (if postId j \<noteq> []
                    then snd (update en UpdateFailed (postId j) (\<lambda>row. row\<lparr>status := FAILED\<rparr>) w)
                    else w)
          in (Inl error, w'))"


section \<open>Scheduling: the queue and the routes\<close>

text \<open>
  The BullMQ queue behind \<^verbatim>\<open>req.app.locals.postQueue\<close>. BullMQ is a library the
  routes call, not code of this repository; its two operations are taken as the library
  documents them. \<^verbatim>\<open>add\<close> with a \<^verbatim>\<open>jobId\<close> that a job of the queue already has is
  ignored (what the route's comment \<^verbatim>\<open>Prevent duplicates\<close> relies on); otherwise the
  job is appended, under a generated id when no \<^verbatim>\<open>jobId\<close> is given.
  \<^verbatim>\<open>removeRepeatable\<close> removes the schedule of a repeatable job and leaves the jobs of
  the queue alone.
\<close>

datatype job_key = Custom string | Generated nat

record job_opts =
  opt_delay :: "int option"
  opt_jobId :: "string option"
  opt_priority :: "nat option"

record queued_job =
  queued_name :: string
  queued_postId :: string
  queued_opts :: job_opts
  attemptsMade :: nat

record queue =
  jobs :: "(job_key \<times> queued_job) list"
  repeatables :: "string list"
  next_generated :: nat

definition queue_add :: "queue \<Rightarrow> string \<Rightarrow> string \<Rightarrow> job_opts \<Rightarrow> queue" where
  "queue_add q nm pid opts =
     (let jb = \<lparr>queued_name = nm, queued_postId = pid, queued_opts = opts, attemptsMade = 0\<rparr> in
      case opt_jobId opts of
        Some k \<Rightarrow>
          (case map_of (jobs q) (Custom k) of
             Some _ \<Rightarrow> q
           | None \<Rightarrow> q\<lparr>jobs := jobs q @ [(Custom k, jb)]\<rparr>)
      | None \<Rightarrow>
          q\<lparr>jobs := jobs q @ [(Generated (next_generated q), jb)],
            next_generated := Suc (next_generated q)\<rparr>)"

definition removeRepeatable :: "queue \<Rightarrow> string \<Rightarrow> queue" where
  "removeRepeatable q nm = q\<lparr>repeatables := removeAll nm (repeatables q)\<rparr>"

text \<open>
  The server state the routes of \<^verbatim>\<open>src/routes/posts.js\<close> work on, and the fields of
  \<^verbatim>\<open>req.body\<close> they read (\<open>None\<close> for an absent field; the platforms already parsed,
  the schedule time a number of milliseconds). No media file is uploaded.
\<close>

record server =
  db :: "string \<rightharpoonup> post"
  postQueue :: queue

record post_body =
  body_title :: "string option"
  body_content :: "string option"
  body_platforms :: "string list option"
  body_scheduledFor :: "int option"

text \<open>
  The routes test \<^verbatim>\<open>scheduledFor\<close> for truthiness before they use it: an absent
  field and the number 0 both count as no schedule.
\<close>

definition scheduled_time :: "int option \<Rightarrow> int option" where
  "scheduled_time s = (case s of None \<Rightarrow> None | Some t \<Rightarrow> if t = 0 then None else Some t)"

text \<open>
  \<^verbatim>\<open>router.post('/')\<close>, for the user \<open>uid\<close>, with \<open>newId\<close> the id the database gives
  the created row and \<open>clock\<close> the value of \<^verbatim>\<open>Date.now()\<close>. The result is the HTTP
  status and the new server state.
\<close>

definition create_post :: "string \<Rightarrow> string \<Rightarrow> int \<Rightarrow> post_body \<Rightarrow> server \<Rightarrow> nat \<times> server" where
  "create_post uid newId clock b sv =
     (case (body_content b, body_platforms b) of
        (Some c, Some pfs) \<Rightarrow>
          if c = [] then (400, sv)
          else
            let row = \<lparr>userId = uid,
                       title = (case body_title b of None \<Rightarrow> None
                                | Some t \<Rightarrow> if t = [] then None else Some t),
                       content = c, mediaUrls = [], platforms = pfs,
                       status = (if scheduled_time (body_scheduledFor b) \<noteq> None then SCHEDULED else DRAFT),
                       scheduledFor = scheduled_time (body_scheduledFor b), publishedAt = None\<rparr>;
                sv1 = sv\<lparr>db := (db sv)(newId \<mapsto> row)\<rparr>
            in (case scheduled_time (body_scheduledFor b) of
                  None \<Rightarrow> (201, sv1)
                | Some t \<Rightarrow>
                    (201, sv1\<lparr>postQueue :=
                            queue_add (postQueue sv1) ''publish-post'' newId
                              \<lparr>opt_delay = Some (t - clock),
                               opt_jobId = Some (''post-'' @ newId),
                               opt_priority = None\<rparr>\<rparr>))
      | _ \<Rightarrow> (400, sv))"

text \<open>
  \<^verbatim>\<open>router.put('/:postId')\<close>. The route calls \<^verbatim>\<open>removeRepeatable\<close> with the job id
  as its only argument; \<open>rr_throws\<close> says whether the library throws on that call, in
  which case the route's \<^verbatim>\<open>catch\<close> answers 500 after the row has been updated.
\<close>

definition update_post :: "string \<Rightarrow> string \<Rightarrow> int \<Rightarrow> post_body \<Rightarrow> bool \<Rightarrow> server \<Rightarrow> nat \<times> server" where
  "update_post uid pid clock b rr_throws sv =
     (case db sv pid of
        None \<Rightarrow> (404, sv)
      | Some existingPost \<Rightarrow>
          if userId existingPost \<noteq> uid then (404, sv)
          else if status existingPost = PUBLISHED then (400, sv)
          else
            let row = existingPost
                  \<lparr>title := (case body_title b of None \<Rightarrow> title existingPost | Some t \<Rightarrow> Some t),
                   content := (case body_content b of None \<Rightarrow> content existingPost | Some c \<Rightarrow> c),
                   platforms := (case body_platforms b of None \<Rightarrow> platforms existingPost
                                 | Some pfs \<Rightarrow> pfs),
                   status := (if scheduled_time (body_scheduledFor b) \<noteq> None then SCHEDULED
                              else if status existingPost = SCHEDULED then DRAFT
                              else status existingPost),
                   scheduledFor := scheduled_time (body_scheduledFor b)\<rparr>;
                sv1 = sv\<lparr>db := (db sv)(pid \<mapsto> row)\<rparr>
            in if rr_throws then (500, sv1)
               else
                 let q1 = removeRepeatable (postQueue sv1) (''post-'' @ pid) in
                 (case scheduled_time (body_scheduledFor b) of
                    None \<Rightarrow> (200, sv1\<lparr>postQueue := q1\<rparr>)
                  | Some t \<Rightarrow>
                      (200, sv1\<lparr>postQueue :=
                              queue_add q1 ''publish-post'' pid
                                \<lparr>opt_delay = Some (t - clock),
                                 opt_jobId = Some (''post-'' @ pid),
                                 opt_priority = None\<rparr>\<rparr>)))"

text \<open>The pending jobs of a post, each with its id and its delay.\<close>

definition pending_for :: "server \<Rightarrow> string \<Rightarrow> (job_key \<times> int option) list" where
  "pending_for sv pid =
     map (\<lambda>(k, jb). (k, opt_delay (queued_opts jb)))
       (filter (\<lambda>(k, jb). queued_postId jb = pid) (jobs (postQueue sv)))"

section \<open>Notions used in the statements\<close>

text \<open>
  The world when the loop reaches the \<open>i\<close>-th target platform of the post, and the
  results and world when it has gone through all of them.
\<close>

definition world_before :: "env \<Rightarrow> world \<Rightarrow> post \<Rightarrow> nat \<Rightarrow> world" where
  "world_before en w p i = snd (publishLoop en p (activeAccounts w p) (take i (platforms p)) w)"

definition attempt :: "env \<Rightarrow> world \<Rightarrow> post \<Rightarrow> platform_result list \<times> world" where
  "attempt en w p = publishLoop en p (activeAccounts w p) (platforms p) w"

text \<open>\<open>w'\<close> is \<open>w\<close> with more requests logged, and nothing else changed.\<close>

definition extends :: "world \<Rightarrow> world \<Rightarrow> bool" where
  "extends w w' = (\<exists>cs. w' = w\<lparr>calls := calls w @ cs\<rparr>)"

definition framed :: "'a action \<Rightarrow> bool" where
  "framed m = (\<forall>w. extends w (snd (m w)))"

text \<open>
  Some request sent between \<open>w\<close> and \<open>w'\<close> was rejected by the remote side; and an
  action that only logs requests and throws whenever one of its requests is rejected.
\<close>

definition rejected :: "env \<Rightarrow> world \<Rightarrow> world \<Rightarrow> bool" where
  "rejected en w w' =
     list_ex (\<lambda>k. isl (axios en (take k (calls w')) (calls w' ! k)))
       [length (calls w) ..< length (calls w')]"

definition strict :: "env \<Rightarrow> 'a action \<Rightarrow> bool" where
  "strict en m = (\<forall>w. extends w (snd (m w)) \<and> (rejected en w (snd (m w)) \<longrightarrow> isl (fst (m w))))"

section \<open>Example inputs\<close>

text \<open>
  A user with one active LinkedIn account whose token expires at 2000, a scheduled post
  for LinkedIn and Instagram, a remote side that accepts every request, a file system
  that reads every file and a database that never throws; the clock reads 1000.
\<close>

definition account0 :: account where
  "account0 = \<lparr>platform = ''LINKEDIN'', accessToken = ''tok'', expiresAt = Some 2000, isActive = True\<rparr>"

definition post0 :: post where
  "post0 = \<lparr>userId = ''u1'', title = None, content = ''hello'', mediaUrls = [],
            platforms = [''LINKEDIN'', ''INSTAGRAM''], status = SCHEDULED,
            scheduledFor = Some 900, publishedAt = None\<rparr>"

definition world0 :: world where
  "world0 = \<lparr>contentPost = [''p1'' \<mapsto> post0],
             socialAccounts = (\<lambda>u. if u = ''u1'' then [account0] else []),
             calls = []\<rparr>"

definition env0 :: env where
  "env0 = \<lparr>now = 1000,
           axios = (\<lambda>sent rq. Inr \<lparr>data_id = ''r1'', data_uploadUrl = ''https://upload.example'',
                                     data_asset = ''urn:li:digitalmediaAsset:1''\<rparr>),
           readFileSync = (\<lambda>path. Inr ''bytes''),
           prisma_error = (\<lambda>op. None)\<rparr>"

definition job0 :: job where
  "job0 = \<lparr>job_id = ''post-p1'', job_name = ''publish-post'', postId = ''p1''\<rparr>"

text \<open>The same database when the final update of the post throws.\<close>

definition env_persist_down :: env where
  "env_persist_down =
     env0\<lparr>prisma_error :=
            (\<lambda>op. if op = UpdateOutcome then Some (JsError ''database unreachable'' None) else None)\<rparr>"

text \<open>A remote side that answers every request with HTTP 429.\<close>

definition env_limited :: env where
  "env_limited =
     env0\<lparr>axios := (\<lambda>sent rq. Inl (JsError ''Request failed with status code 429''
                                          (Some ''Too many requests'')))\<rparr>"

text \<open>A job for a post that is not in the table.\<close>

definition job_missing :: job where
  "job_missing = \<lparr>job_id = ''post-p9'', job_name = ''publish-post'', postId = ''p9''\<rparr>"

text \<open>The post already published, and the post with no target platform.\<close>

definition world_published :: world where
  "world_published =
     world0\<lparr>contentPost := [''p1'' \<mapsto> post0\<lparr>status := PUBLISHED, publishedAt := Some 950\<rparr>]\<rparr>"

definition world_empty :: world where
  "world_empty = world0\<lparr>contentPost := [''p1'' \<mapsto> post0\<lparr>platforms := []\<rparr>]\<rparr>"

text \<open>
  Accounts whose token has expired (the clock of \<open>env0\<close> reads 1000): a LinkedIn
  account expiring at 1000 and an Instagram account expired at 500, each with a post
  for its platform only.
\<close>

definition account_expired :: account where
  "account_expired = account0\<lparr>expiresAt := Some 1000\<rparr>"

definition world_expired :: world where
  "world_expired =
     \<lparr>contentPost = [''p1'' \<mapsto> post0\<lparr>platforms := [''LINKEDIN'']\<rparr>],
      socialAccounts = (\<lambda>u. if u = ''u1'' then [account_expired] else []),
      calls = []\<rparr>"

definition account_instagram :: account where
  "account_instagram =
     \<lparr>platform = ''INSTAGRAM'', accessToken = ''ig'', expiresAt = Some 500, isActive = True\<rparr>"

definition world_instagram :: world where
  "world_instagram =
     \<lparr>contentPost = [''p1'' \<mapsto> post0\<lparr>platforms := [''INSTAGRAM'']\<rparr>],
      socialAccounts = (\<lambda>u. if u = ''u1'' then [account_instagram] else []),
      calls = []\<rparr>"

text \<open>
  An empty server, a request that schedules a post for 5000 and a request that moves the
  schedule to 9000.
\<close>

definition server0 :: server where
  "server0 = \<lparr>db = Map.empty, postQueue = \<lparr>jobs = [], repeatables = [], next_generated = 1\<rparr>\<rparr>"

definition body_t1 :: post_body where
  "body_t1 = \<lparr>body_title = None, body_content = Some ''hello'',
              body_platforms = Some [''LINKEDIN''], body_scheduledFor = Some 5000\<rparr>"

definition body_t2 :: post_body where
  "body_t2 = \<lparr>body_title = None, body_content = None,
              body_platforms = None, body_scheduledFor = Some 9000\<rparr>"

section \<open>Only the request log changes while publishing\<close>

lemma extends_refl: "extends w w"
  unfolding extends_def by (rule exI [of _ "[]"]) simp

lemma extends_trans: "extends w w1 \<Longrightarrow> extends w1 w2 \<Longrightarrow> extends w w2"
  by (auto simp: extends_def)

lemma extends_contentPost: "extends w w' \<Longrightarrow> contentPost w' = contentPost w"
  by (auto simp: extends_def)

lemma extends_socialAccounts: "extends w w' \<Longrightarrow> socialAccounts w' = socialAccounts w"
  by (auto simp: extends_def)

lemma framed_ret: "framed (ret a)"
  by (simp add: framed_def ret_def extends_refl)

lemma framed_throw: "framed (throw e)"
  by (simp add: framed_def throw_def extends_refl)

lemma framed_await: "framed m \<Longrightarrow> (\<And>a. framed (f a)) \<Longrightarrow> framed (await m f)"
  unfolding framed_def await_def
proof (intro allI)
  fix w
  assume m: "\<forall>w. extends w (snd (m w))" and f: "\<And>a. \<forall>w. extends w (snd (f a w))"
  obtain r w1 where mw: "m w = (r, w1)" by (cases "m w")
  have e1: "extends w w1" using m mw by (metis snd_conv)
  show "extends w (snd (case m w of (Inl e, w') \<Rightarrow> (Inl e, w') | (Inr a, w') \<Rightarrow> f a w'))"
  proof (cases r)
    case (Inl e)
    then show ?thesis using mw e1 by simp
  next
    case (Inr a)
    have "extends w1 (snd (f a w1))" using f by blast
    then show ?thesis using mw Inr e1 by (auto intro: extends_trans)
  qed
qed

lemma framed_try_catch: "framed m \<Longrightarrow> (\<And>e. framed (h e)) \<Longrightarrow> framed (try_catch m h)"
  unfolding framed_def try_catch_def
proof (intro allI)
  fix w
  assume m: "\<forall>w. extends w (snd (m w))" and h: "\<And>e. \<forall>w. extends w (snd (h e w))"
  obtain r w1 where mw: "m w = (r, w1)" by (cases "m w")
  have e1: "extends w w1" using m mw by (metis snd_conv)
  show "extends w (snd (case m w of (Inl e, w') \<Rightarrow> h e w' | (Inr a, w') \<Rightarrow> (Inr a, w')))"
  proof (cases r)
    case (Inr a)
    then show ?thesis using mw e1 by simp
  next
    case (Inl e)
    have "extends w1 (snd (h e w1))" using h by blast
    then show ?thesis using mw Inl e1 by (auto intro: extends_trans)
  qed
qed

lemma framed_axios_request: "framed (axios_request en rq)"
  by (auto simp: framed_def axios_request_def extends_def)

lemma framed_getUserId: "framed (getUserId en token)"
  by (simp add: getUserId_def axios_get_def framed_await framed_axios_request framed_ret)

lemma framed_uploadMediaToLinkedIn: "framed (uploadMediaToLinkedIn en mediaPath token)"
  unfolding uploadMediaToLinkedIn_def axios_post_def
  by (intro framed_try_catch framed_await framed_getUserId framed_axios_request framed_throw)
     (auto split: sum.splits intro!: framed_throw framed_await framed_axios_request framed_ret)

lemma framed_publishToLinkedIn: "framed (publishToLinkedIn en p acc)"
  unfolding publishToLinkedIn_def axios_post_def axios_get_def Let_def
  by (auto intro!: framed_try_catch framed_await framed_axios_request framed_throw framed_ret
        framed_uploadMediaToLinkedIn)

lemma framed_dispatch: "framed (dispatch en pf p acc)"
  by (simp add: dispatch_def publishToInstagram_def publishToTikTok_def publishToFacebook_def
        framed_publishToLinkedIn framed_throw)

lemma publishOne_extends: "extends w (snd (publishOne en p accs pf w))"
proof (cases "find (\<lambda>acc. platform acc = pf \<and> isActive acc) accs")
  case None
  then show ?thesis by (simp add: publishOne_def extends_refl)
next
  case (Some acc)
  have "extends w (snd (dispatch en pf p acc w))"
    using framed_dispatch by (simp add: framed_def)
  then show ?thesis using Some
    by (auto simp: publishOne_def split: prod.splits sum.splits)
qed

lemma publishLoop_extends: "extends w (snd (publishLoop en p accs pfs w))"
proof (induction pfs arbitrary: w)
  case Nil
  then show ?case by (simp add: extends_refl)
next
  case (Cons pf pfs)
  obtain r w1 where one: "publishOne en p accs pf w = (r, w1)" by (cases "publishOne en p accs pf w")
  have "extends w w1" using publishOne_extends [of w en p accs pf] one by simp
  moreover have "extends w1 (snd (publishLoop en p accs pfs w1))" by (rule Cons.IH)
  ultimately show ?case using one extends_trans by (auto split: prod.splits)
qed


section \<open>The loop attempts every platform\<close>

lemma publishOne_platform: "result_platform (fst (publishOne en p accs pf w)) = pf"
  by (auto simp: publishOne_def split: option.splits prod.splits sum.splits)

lemma publishLoop_Cons_fst:
  "fst (publishLoop en p accs (pf # pfs) w)
     = fst (publishOne en p accs pf w)
       # fst (publishLoop en p accs pfs (snd (publishOne en p accs pf w)))"
  by (simp split: prod.splits)

lemma publishLoop_Cons_snd:
  "snd (publishLoop en p accs (pf # pfs) w)
     = snd (publishLoop en p accs pfs (snd (publishOne en p accs pf w)))"
  by (simp split: prod.splits)

lemma publishLoop_platforms: "map result_platform (fst (publishLoop en p accs pfs w)) = pfs"
proof (induction pfs arbitrary: w)
  case Nil
  then show ?case by simp
next
  case (Cons pf pfs)
  then show ?case by (simp only: publishLoop_Cons_fst list.map publishOne_platform)
qed

lemma publishLoop_length: "length (fst (publishLoop en p accs pfs w)) = length pfs"
  using publishLoop_platforms [of en p accs pfs w] by (metis length_map)

lemma publishLoop_nth:
  "i < length pfs \<Longrightarrow>
   fst (publishLoop en p accs pfs w) ! i
     = fst (publishOne en p accs (pfs ! i) (snd (publishLoop en p accs (take i pfs) w)))"
proof (induction pfs arbitrary: i w)
  case Nil
  then show ?case by simp
next
  case (Cons pf pfs)
  show ?case
  proof (cases i)
    case 0
    then show ?thesis by (simp only: publishLoop_Cons_fst) simp
  next
    case (Suc k)
    then have "k < length pfs" using Cons.prems by simp
    then have "fst (publishLoop en p accs pfs (snd (publishOne en p accs pf w))) ! k
      = fst (publishOne en p accs (pfs ! k)
               (snd (publishLoop en p accs (take k pfs) (snd (publishOne en p accs pf w)))))"
      by (rule Cons.IH)
    then show ?thesis using Suc
      by (simp only: publishLoop_Cons_fst publishLoop_Cons_snd take_Suc_Cons nth_Cons_Suc)
  qed
qed

lemma publishLoop_take_Suc:
  "i < length pfs \<Longrightarrow>
   snd (publishLoop en p accs (take (Suc i) pfs) w)
     = snd (publishOne en p accs (pfs ! i) (snd (publishLoop en p accs (take i pfs) w)))"
proof (induction pfs arbitrary: i w)
  case Nil
  then show ?case by simp
next
  case (Cons pf pfs)
  show ?case
  proof (cases i)
    case 0
    then show ?thesis by (simp only: take_Suc_Cons publishLoop_Cons_snd) simp
  next
    case (Suc k)
    then have "k < length pfs" using Cons.prems by simp
    then have "snd (publishLoop en p accs (take (Suc k) pfs) (snd (publishOne en p accs pf w)))
      = snd (publishOne en p accs (pfs ! k)
               (snd (publishLoop en p accs (take k pfs) (snd (publishOne en p accs pf w)))))"
      by (rule Cons.IH)
    then show ?thesis using Suc
      by (simp only: publishLoop_Cons_snd take_Suc_Cons nth_Cons_Suc)
  qed
qed

section \<open>What the handler does once the post is loaded\<close>

lemma attempt_contentPost: "contentPost (snd (attempt en w p)) = contentPost w"
  unfolding attempt_def by (rule extends_contentPost) (rule publishLoop_extends)

lemma postWorker_already_published:
  assumes "prisma_error en FindUnique = None" and "contentPost w (postId j) = Some p"
    and "status p = PUBLISHED"
  shows "postWorker en j w = (Inr AlreadyPublished, w)"
  using assms
  by (simp add: postWorker_def process_def try_catch_def await_def findUnique_def ret_def)

lemma postWorker_persisted:
  assumes "prisma_error en FindUnique = None" and "contentPost w (postId j) = Some p"
    and "status p \<noteq> PUBLISHED" and "prisma_error en UpdateOutcome = None"
    and "attempt en w p = (results, w1)"
  shows "postWorker en j w =
    (Inr (Completed (postId j) results
            (if list_all is_error results then ''failed''
             else if list_ex is_error results then ''partial_success'' else ''success'')),
     w1\<lparr>contentPost := (contentPost w)(postId j \<mapsto>
           p\<lparr>status := (if list_all is_error results then FAILED else PUBLISHED),
             publishedAt := (if list_all is_error results then None else Some (now en))\<rparr>)\<rparr>)"
proof -
  have cp: "contentPost w1 = contentPost w"
    using attempt_contentPost [of en w p] assms(5) by simp
  have loop: "publishLoop en p (activeAccounts w p) (platforms p) w = (results, w1)"
    using assms(5) by (simp add: attempt_def)
  show ?thesis
    using assms(1-4) loop cp
    by (simp add: postWorker_def process_def try_catch_def await_def findUnique_def ret_def
          update_def Let_def)
qed

lemma postWorker_persist_throws:
  assumes "prisma_error en FindUnique = None" and "contentPost w (postId j) = Some p"
    and "status p \<noteq> PUBLISHED" and "prisma_error en UpdateOutcome = Some e"
    and "attempt en w p = (results, w1)"
  shows "postWorker en j w =
    (Inl e,
     if postId j \<noteq> [] \<and> prisma_error en UpdateFailed = None
     then w1\<lparr>contentPost := (contentPost w)(postId j \<mapsto> p\<lparr>status := FAILED\<rparr>)\<rparr>
     else w1)"
proof -
  have cp: "contentPost w1 = contentPost w"
    using attempt_contentPost [of en w p] assms(5) by simp
  have loop: "publishLoop en p (activeAccounts w p) (platforms p) w = (results, w1)"
    using assms(5) by (simp add: attempt_def)
  show ?thesis
    using assms(1-4) loop cp
    by (auto simp: postWorker_def process_def try_catch_def await_def findUnique_def ret_def
          update_def Let_def split: option.splits)
qed

lemma all_failed_iff: "list_all P xs \<longleftrightarrow> length (filter P xs) = length xs"
proof
  assume "list_all P xs"
  then have "filter P xs = xs" by (simp add: list_all_iff)
  then show "length (filter P xs) = length xs" by simp
next
  assume eq: "length (filter P xs) = length xs"
  show "list_all P xs"
  proof (rule ccontr)
    assume "\<not> list_all P xs"
    then obtain x where "x \<in> set xs" "\<not> P x" by (auto simp: list_all_iff)
    then have "length (filter P xs) < length xs" by (rule length_filter_less)
    then show False using eq by simp
  qed
qed

section \<open>Aggregation\<close>

text \<open>
  Claim C1. When the handler has loaded a post that is not yet published and that has at
  least one target platform, and the final update does not throw: with \<open>ntotal\<close> the
  number of target platforms and \<open>nfailed\<close> the number of results with status
  \<^verbatim>\<open>'error'\<close>, there is one result per platform, the job completes, and the stored post
  is the loaded one with status \<open>FAILED\<close> and a null \<open>publishedAt\<close> if
  \<open>nfailed = ntotal\<close>, and with status \<open>PUBLISHED\<close> and \<open>publishedAt = now\<close> otherwise.
\<close>

theorem aggregate_status:
  assumes "prisma_error en FindUnique = None"
    and "contentPost w (postId j) = Some p"
    and "status p \<noteq> PUBLISHED"
    and "platforms p \<noteq> []"
    and "prisma_error en UpdateOutcome = None"
    and "results = fst (attempt en w p)"
    and "ntotal = length (platforms p)"
    and "nfailed = length (filter is_error results)"
  shows "length results = ntotal \<and> nfailed \<le> ntotal \<and>
    (\<exists>summary. postWorker en j w =
       (Inr (Completed (postId j) results summary),
        (snd (attempt en w p))\<lparr>contentPost := (contentPost w)(postId j \<mapsto>
           p\<lparr>status := (if nfailed = ntotal then FAILED else PUBLISHED),
             publishedAt := (if nfailed = ntotal then None else Some (now en))\<rparr>)\<rparr>))"
proof -
  have len: "length results = ntotal"
    using assms(6,7) by (simp add: attempt_def publishLoop_length)
  have le: "nfailed \<le> ntotal"
    using assms(8) len length_filter_le [of is_error results] by simp
  have all: "list_all is_error results \<longleftrightarrow> nfailed = ntotal"
    using assms(8) len by (simp add: all_failed_iff)
  have att: "attempt en w p = (results, snd (attempt en w p))"
    using assms(6) by simp
  show ?thesis
    using len le postWorker_persisted [OF assms(1,2,3,5) att] all by simp
qed

theorem aggregate_status_witness:
  "fst (attempt env0 world0 post0)
     = [ResultSuccess ''LINKEDIN''
          \<lparr>platformPostId = ''r1'', result_url = ''https://linkedin.com/feed/update/r1'',
            result_publishedAt = 1000\<rparr>,
        ResultError ''INSTAGRAM'' ''No active account'']
   \<and> contentPost (snd (postWorker env0 job0 world0)) ''p1''
     = Some (post0\<lparr>status := PUBLISHED, publishedAt := Some 1000\<rparr>)"
proof -
  have res: "fst (attempt env0 world0 post0)
     = [ResultSuccess ''LINKEDIN''
          \<lparr>platformPostId = ''r1'', result_url = ''https://linkedin.com/feed/update/r1'',
            result_publishedAt = 1000\<rparr>,
        ResultError ''INSTAGRAM'' ''No active account'']"
    by (simp add: attempt_def activeAccounts_def world0_def post0_def account0_def env0_def
          publishOne_def dispatch_def publishToLinkedIn_def try_catch_def await_def ret_def
          token_expired_def axios_get_def axios_post_def axios_request_def LINKEDIN_apiUrl_def
          Let_def throw_def)
  have failed: "length (filter is_error (fst (attempt env0 world0 post0))) = 1"
    by (simp add: res is_error_def)
  have "contentPost world0 (postId job0) = Some post0"
    by (simp add: world0_def job0_def)
  moreover have "status post0 \<noteq> PUBLISHED" "platforms post0 \<noteq> []" "length (platforms post0) = 2"
    by (simp_all add: post0_def)
  moreover have "prisma_error env0 FindUnique = None" "prisma_error env0 UpdateOutcome = None"
    "now env0 = 1000"
    by (simp_all add: env0_def)
  ultimately show ?thesis
    using aggregate_status [of env0 world0 job0 post0 "fst (attempt env0 world0 post0)" 2 1]
      res failed
    by (auto simp: job0_def)
qed


text \<open>
  Claim C10. A loaded, not yet published post with no target platform gets no result;
  \<^verbatim>\<open>[].every(...)\<close> is true, so the post is stored \<open>FAILED\<close> with a null
  \<open>publishedAt\<close> and the job completes with summary \<^verbatim>\<open>'failed'\<close>, although no
  platform failed.
\<close>

theorem empty_platforms_failed:
  assumes "prisma_error en FindUnique = None"
    and "contentPost w (postId j) = Some p"
    and "status p \<noteq> PUBLISHED"
    and "platforms p = []"
    and "prisma_error en UpdateOutcome = None"
  shows "postWorker en j w =
    (Inr (Completed (postId j) [] ''failed''),
     w\<lparr>contentPost := (contentPost w)(postId j \<mapsto> p\<lparr>status := FAILED, publishedAt := None\<rparr>)\<rparr>)"
proof -
  have "attempt en w p = ([], w)"
    using assms(4) by (simp add: attempt_def)
  from postWorker_persisted [OF assms(1,2,3,5) this] show ?thesis by simp
qed

theorem empty_platforms_failed_witness:
  "postWorker env0 job0 world_empty =
    (Inr (Completed ''p1'' [] ''failed''),
     world_empty\<lparr>contentPost := (contentPost world_empty)(''p1'' \<mapsto>
        post0\<lparr>platforms := [], status := FAILED, publishedAt := None\<rparr>)\<rparr>)"
proof -
  have "contentPost world_empty (postId job0) = Some (post0\<lparr>platforms := []\<rparr>)"
    by (simp add: world_empty_def job0_def)
  moreover have "status (post0\<lparr>platforms := []\<rparr>) \<noteq> PUBLISHED"
    by (simp add: post0_def)
  moreover have "prisma_error env0 FindUnique = None" "prisma_error env0 UpdateOutcome = None"
    by (simp_all add: env0_def)
  ultimately show ?thesis
    using empty_platforms_failed [of env0 world_empty job0 "post0\<lparr>platforms := []\<rparr>"]
    by (simp add: job0_def)
qed

section \<open>Short circuits\<close>

text \<open>
  Claim C3. When the handler loads a post whose status is already \<open>PUBLISHED\<close>, the job
  completes with \<^verbatim>\<open>{ status: 'already_published' }\<close> and the world is left as it was:
  no request is sent and nothing stored is changed.
\<close>

theorem already_published_noop:
  assumes "prisma_error en FindUnique = None"
    and "contentPost w (postId j) = Some p"
    and "status p = PUBLISHED"
  shows "postWorker en j w = (Inr AlreadyPublished, w)"
  using assms by (rule postWorker_already_published)

theorem already_published_noop_witness:
  "postWorker env0 job0 world_published = (Inr AlreadyPublished, world_published)"
proof -
  have "contentPost world_published (postId job0)
          = Some (post0\<lparr>status := PUBLISHED, publishedAt := Some 950\<rparr>)"
    by (simp add: world_published_def job0_def)
  moreover have "status (post0\<lparr>status := PUBLISHED, publishedAt := Some 950\<rparr>) = PUBLISHED"
    by simp
  moreover have "prisma_error env0 FindUnique = None"
    by (simp add: env0_def)
  ultimately show ?thesis
    by (rule already_published_noop [rotated 1])
qed

text \<open>
  Claim C2, as the code has it. When the post of a job is not in the table, the handler
  throws \<^verbatim>\<open>Post <id> not found\<close>: the job is reported failed to the queue, not
  completed. No request is sent and no post is changed (the \<^verbatim>\<open>catch\<close> block's update
  of a missing row throws and is only logged).
\<close>

theorem missing_post_throws:
  assumes "prisma_error en FindUnique = None"
    and "contentPost w (postId j) = None"
  shows "postWorker en j w = (Inl (JsError (''Post '' @ postId j @ '' not found'') None), w)"
  using assms
  by (simp add: postWorker_def process_def try_catch_def await_def findUnique_def throw_def
        update_def split: option.splits)

theorem missing_post_throws_witness:
  "contentPost world0 (postId job_missing) = None \<and>
   postWorker env0 job_missing world0 = (Inl (JsError ''Post p9 not found'' None), world0)"
proof -
  have none: "contentPost world0 (postId job_missing) = None"
    by (simp add: world0_def job_missing_def)
  have "prisma_error env0 FindUnique = None"
    by (simp add: env0_def)
  from missing_post_throws [OF this none] none show ?thesis
    by (simp add: job_missing_def)
qed

text \<open>The claim as the spec states it (the job succeeds) fails on this input.\<close>

theorem missing_post_success_counterexample:
  "contentPost world0 (postId job_missing) = None \<and>
   fst (postWorker env0 job_missing world0) = Inl (JsError ''Post p9 not found'' None)"
  by (simp add: postWorker_def process_def try_catch_def await_def findUnique_def throw_def
        update_def world0_def job_missing_def env0_def)

section \<open>Job-level failure\<close>

text \<open>
  Claim C5, as the code has it. When the final update throws, the handler rethrows that
  error, so the job is reported failed to the queue; before that its \<^verbatim>\<open>catch\<close> block
  sets the post's status to \<open>FAILED\<close>, leaving its other fields as loaded, unless the
  job has no post id or that second update throws too, in which case the post is left
  as it was.
\<close>

theorem persist_failure_marks_failed:
  assumes "prisma_error en FindUnique = None"
    and "contentPost w (postId j) = Some p"
    and "status p \<noteq> PUBLISHED"
    and "prisma_error en UpdateOutcome = Some e"
  shows "postWorker en j w =
    (Inl e,
     if postId j \<noteq> [] \<and> prisma_error en UpdateFailed = None
     then (snd (attempt en w p))\<lparr>contentPost := (contentPost w)(postId j \<mapsto> p\<lparr>status := FAILED\<rparr>)\<rparr>
     else snd (attempt en w p))"
proof -
  have "attempt en w p = (fst (attempt en w p), snd (attempt en w p))" by simp
  from postWorker_persist_throws [OF assms this] show ?thesis .
qed

theorem persist_failure_marks_failed_witness:
  "fst (postWorker env_persist_down job0 world0) = Inl (JsError ''database unreachable'' None) \<and>
   contentPost (snd (postWorker env_persist_down job0 world0)) ''p1''
     = Some (post0\<lparr>status := FAILED\<rparr>)"
proof -
  have "contentPost world0 (postId job0) = Some post0"
    by (simp add: world0_def job0_def)
  moreover have "status post0 \<noteq> PUBLISHED"
    by (simp add: post0_def)
  moreover have "prisma_error env_persist_down FindUnique = None"
    "prisma_error env_persist_down UpdateOutcome = Some (JsError ''database unreachable'' None)"
    "prisma_error env_persist_down UpdateFailed = None"
    by (simp_all add: env_persist_down_def env0_def)
  ultimately show ?thesis
    using persist_failure_marks_failed [of env_persist_down world0 job0 post0
        "JsError ''database unreachable'' None"]
    by (simp add: job0_def)
qed

text \<open>
  The claim as the spec states it (no status mutation on the error path) fails: a post
  that was \<open>SCHEDULED\<close> is \<open>FAILED\<close> after the final update threw.
\<close>

theorem persist_failure_status_counterexample:
  "map_option status (contentPost world0 ''p1'') = Some SCHEDULED \<and>
   fst (postWorker env_persist_down job0 world0) = Inl (JsError ''database unreachable'' None) \<and>
   map_option status (contentPost (snd (postWorker env_persist_down job0 world0)) ''p1'')
     = Some FAILED"
  by (simp add: postWorker_def process_def try_catch_def await_def findUnique_def throw_def ret_def
        update_def world0_def job0_def env0_def env_persist_down_def post0_def account0_def
        activeAccounts_def publishOne_def dispatch_def publishToLinkedIn_def
        token_expired_def axios_get_def axios_post_def axios_request_def LINKEDIN_apiUrl_def
        Let_def split: prod.splits)


section \<open>Platform-level failures\<close>

lemma world_before_Suc:
  "i < length (platforms p) \<Longrightarrow>
   world_before en w p (Suc i)
     = snd (publishOne en p (activeAccounts w p) (platforms p ! i) (world_before en w p i))"
  unfolding world_before_def by (rule publishLoop_take_Suc)

lemma attempt_nth:
  "i < length (platforms p) \<Longrightarrow>
   fst (attempt en w p) ! i
     = fst (publishOne en p (activeAccounts w p) (platforms p ! i) (world_before en w p i))"
  unfolding world_before_def attempt_def by (rule publishLoop_nth)

lemma postWorker_completes:
  assumes "prisma_error en FindUnique = None" and "contentPost w (postId j) = Some p"
    and "status p \<noteq> PUBLISHED" and "prisma_error en UpdateOutcome = None"
  shows "\<exists>summary w'. postWorker en j w = (Inr (Completed (postId j) (fst (attempt en w p)) summary), w')"
proof -
  have "attempt en w p = (fst (attempt en w p), snd (attempt en w p))" by simp
  from postWorker_persisted [OF assms this] show ?thesis by blast
qed

text \<open>
  Claim C4. For a loaded, not yet published post whose final update does not throw, the
  job completes (it is not reported failed) whatever the platforms did; its results name
  the target platforms one by one, in order; and the result of the \<open>i\<close>-th platform is
  obtained in the world the earlier platforms left, whatever their outcomes: the
  no-account error when no active account is found, the message of the error the
  publisher threw when it threw, and its payload when it returned.
\<close>

theorem platform_failures_recorded:
  assumes "prisma_error en FindUnique = None"
    and "contentPost w (postId j) = Some p"
    and "status p \<noteq> PUBLISHED"
    and "prisma_error en UpdateOutcome = None"
    and "results = fst (attempt en w p)"
  shows "(\<exists>summary w'. postWorker en j w = (Inr (Completed (postId j) results summary), w')) \<and>
    map result_platform results = platforms p \<and>
    (\<forall>i < length (platforms p).
       results ! i =
         (case find (\<lambda>acc. platform acc = platforms p ! i \<and> isActive acc) (activeAccounts w p) of
            None \<Rightarrow> ResultError (platforms p ! i) ''No active account''
          | Some acc \<Rightarrow>
              (case fst (dispatch en (platforms p ! i) p acc (world_before en w p i)) of
                 Inl error \<Rightarrow> ResultError (platforms p ! i) (message error)
               | Inr publishResult \<Rightarrow> ResultSuccess (platforms p ! i) publishResult)))"
proof (intro conjI allI impI)
  show "\<exists>summary w'. postWorker en j w = (Inr (Completed (postId j) results summary), w')"
    using postWorker_completes [OF assms(1-4)] assms(5) by simp
next
  show "map result_platform results = platforms p"
    using assms(5) by (simp add: attempt_def publishLoop_platforms)
next
  fix i assume "i < length (platforms p)"
  then have "results ! i
    = fst (publishOne en p (activeAccounts w p) (platforms p ! i) (world_before en w p i))"
    using assms(5) by (simp add: attempt_nth)
  then show "results ! i =
         (case find (\<lambda>acc. platform acc = platforms p ! i \<and> isActive acc) (activeAccounts w p) of
            None \<Rightarrow> ResultError (platforms p ! i) ''No active account''
          | Some acc \<Rightarrow>
              (case fst (dispatch en (platforms p ! i) p acc (world_before en w p i)) of
                 Inl error \<Rightarrow> ResultError (platforms p ! i) (message error)
               | Inr publishResult \<Rightarrow> ResultSuccess (platforms p ! i) publishResult))"
    by (simp add: publishOne_def split: option.splits prod.splits sum.splits)
qed

theorem platform_failures_recorded_witness:
  "\<exists>summary w'. postWorker env_limited job0 world0 =
     (Inr (Completed ''p1''
        [ResultError ''LINKEDIN'' ''LinkedIn publishing failed: Too many requests'',
         ResultError ''INSTAGRAM'' ''No active account''] summary), w')"
proof -
  have res: "fst (attempt env_limited world0 post0)
     = [ResultError ''LINKEDIN'' ''LinkedIn publishing failed: Too many requests'',
        ResultError ''INSTAGRAM'' ''No active account'']"
    by (simp add: attempt_def activeAccounts_def world0_def post0_def account0_def env0_def
          env_limited_def publishOne_def dispatch_def publishToLinkedIn_def try_catch_def
          await_def ret_def throw_def token_expired_def axios_get_def axios_post_def
          axios_request_def LINKEDIN_apiUrl_def or_else_def Let_def)
  have "contentPost world0 (postId job0) = Some post0"
    by (simp add: world0_def job0_def)
  moreover have "status post0 \<noteq> PUBLISHED"
    by (simp add: post0_def)
  moreover have "prisma_error env_limited FindUnique = None"
    "prisma_error env_limited UpdateOutcome = None"
    by (simp_all add: env_limited_def env0_def)
  ultimately have "\<exists>summary w'. postWorker env_limited job0 world0
      = (Inr (Completed (postId job0) (fst (attempt env_limited world0 post0)) summary), w')"
    using platform_failures_recorded [of env_limited world0 job0 post0
        "fst (attempt env_limited world0 post0)"]
    by simp
  then show ?thesis by (simp add: res job0_def)
qed

text \<open>
  Claim C6. For a loaded, not yet published post whose final update does not throw: when
  the author has no active account for the \<open>i\<close>-th target platform, the job's \<open>i\<close>-th
  result is the error \<^verbatim>\<open>'No active account'\<close> for that platform, and the world after
  that platform is the world before it, so no request was sent for it.
\<close>

theorem no_active_account_short_circuit:
  assumes "prisma_error en FindUnique = None"
    and "contentPost w (postId j) = Some p"
    and "status p \<noteq> PUBLISHED"
    and "prisma_error en UpdateOutcome = None"
    and "i < length (platforms p)"
    and "\<forall>acc \<in> set (socialAccounts w (userId p)). \<not> (platform acc = platforms p ! i \<and> isActive acc)"
  shows "\<exists>results summary w'.
    postWorker en j w = (Inr (Completed (postId j) results summary), w') \<and>
    results ! i = ResultError (platforms p ! i) ''No active account'' \<and>
    world_before en w p (Suc i) = world_before en w p i"
proof -
  have none: "find (\<lambda>acc. platform acc = platforms p ! i \<and> isActive acc) (activeAccounts w p) = None"
    using assms(6) by (auto simp: find_None_iff activeAccounts_def)
  have one: "publishOne en p (activeAccounts w p) (platforms p ! i) (world_before en w p i)
    = (ResultError (platforms p ! i) ''No active account'', world_before en w p i)"
    using none by (simp add: publishOne_def)
  have r: "fst (attempt en w p) ! i = ResultError (platforms p ! i) ''No active account''"
    using attempt_nth [OF assms(5), of en w] one by simp
  have s: "world_before en w p (Suc i) = world_before en w p i"
    using world_before_Suc [OF assms(5), of en w] one by simp
  from postWorker_completes [OF assms(1-4)] r s show ?thesis by blast
qed

theorem no_active_account_short_circuit_witness:
  "\<exists>results summary w'.
    postWorker env0 job0 world0 = (Inr (Completed ''p1'' results summary), w') \<and>
    results ! 1 = ResultError ''INSTAGRAM'' ''No active account'' \<and>
    world_before env0 world0 post0 2 = world_before env0 world0 post0 1"
proof -
  have "contentPost world0 (postId job0) = Some post0"
    by (simp add: world0_def job0_def)
  moreover have "status post0 \<noteq> PUBLISHED" "1 < length (platforms post0)"
    "platforms post0 ! 1 = ''INSTAGRAM''"
    by (simp_all add: post0_def)
  moreover have "prisma_error env0 FindUnique = None" "prisma_error env0 UpdateOutcome = None"
    by (simp_all add: env0_def)
  moreover have "\<forall>acc \<in> set (socialAccounts world0 (userId post0)).
      \<not> (platform acc = platforms post0 ! 1 \<and> isActive acc)"
    by (simp add: world0_def post0_def account0_def)
  ultimately show ?thesis
    using no_active_account_short_circuit [of env0 world0 job0 post0 1]
    by (simp add: job0_def numeral_2_eq_2)
qed


lemma dispatch_expired:
  assumes "expiresAt acc = Some t" and "t \<le> now en"
  shows "dispatch en pf p acc w =
    (Inl (JsError
       (if pf = ''LINKEDIN'' then ''LinkedIn publishing failed: LinkedIn access token expired''
        else if pf = ''INSTAGRAM'' then ''Instagram publishing not yet implemented''
        else if pf = ''TIKTOK'' then ''TikTok publishing not yet implemented''
        else if pf = ''FACEBOOK'' then ''Facebook publishing not yet implemented''
        else ''Platform '' @ pf @ '' not supported'') None), w)"
  using assms
  by (simp add: dispatch_def publishToLinkedIn_def publishToInstagram_def publishToTikTok_def
        publishToFacebook_def try_catch_def throw_def token_expired_def or_else_def)

text \<open>
  Claim C8, as the code has it. For a loaded, not yet published post whose final update
  does not throw: when the account found for the \<open>i\<close>-th target platform has an expiry
  at or before \<open>now\<close>, the job's \<open>i\<close>-th result is an error and the world after that
  platform is the world before it, so no request was sent for it. The error is the
  expired-token one only for \<^verbatim>\<open>LINKEDIN\<close>, whose publisher alone checks the expiry; the
  other platforms give the error they give for any account.
\<close>

theorem expired_credential_no_call:
  assumes "prisma_error en FindUnique = None"
    and "contentPost w (postId j) = Some p"
    and "status p \<noteq> PUBLISHED"
    and "prisma_error en UpdateOutcome = None"
    and "i < length (platforms p)"
    and "find (\<lambda>acc. platform acc = platforms p ! i \<and> isActive acc) (activeAccounts w p) = Some acc"
    and "expiresAt acc = Some t"
    and "t \<le> now en"
    and "pf = platforms p ! i"
  shows "\<exists>results summary w'.
    postWorker en j w = (Inr (Completed (postId j) results summary), w') \<and>
    results ! i = ResultError pf
       (if pf = ''LINKEDIN'' then ''LinkedIn publishing failed: LinkedIn access token expired''
        else if pf = ''INSTAGRAM'' then ''Instagram publishing not yet implemented''
        else if pf = ''TIKTOK'' then ''TikTok publishing not yet implemented''
        else if pf = ''FACEBOOK'' then ''Facebook publishing not yet implemented''
        else ''Platform '' @ pf @ '' not supported'') \<and>
    world_before en w p (Suc i) = world_before en w p i"
proof -
  have one: "publishOne en p (activeAccounts w p) (platforms p ! i) (world_before en w p i)
    = (ResultError pf
       (if pf = ''LINKEDIN'' then ''LinkedIn publishing failed: LinkedIn access token expired''
        else if pf = ''INSTAGRAM'' then ''Instagram publishing not yet implemented''
        else if pf = ''TIKTOK'' then ''TikTok publishing not yet implemented''
        else if pf = ''FACEBOOK'' then ''Facebook publishing not yet implemented''
        else ''Platform '' @ pf @ '' not supported''), world_before en w p i)"
    using assms(6,9) dispatch_expired [OF assms(7,8), of pf p "world_before en w p i"]
    by (simp add: publishOne_def)
  have r: "fst (attempt en w p) ! i = fst (publishOne en p (activeAccounts w p) (platforms p ! i) (world_before en w p i))"
    using attempt_nth [OF assms(5), of en w] by simp
  have s: "world_before en w p (Suc i) = world_before en w p i"
    using world_before_Suc [OF assms(5), of en w] one by simp
  from postWorker_completes [OF assms(1-4)] r s one show ?thesis by (metis fst_conv)
qed

theorem expired_credential_no_call_witness:
  "\<exists>results summary w'.
    postWorker env0 job0 world_expired = (Inr (Completed ''p1'' results summary), w') \<and>
    results ! 0 = ResultError ''LINKEDIN'' ''LinkedIn publishing failed: LinkedIn access token expired'' \<and>
    world_before env0 world_expired (post0\<lparr>platforms := [''LINKEDIN'']\<rparr>) (Suc 0)
      = world_before env0 world_expired (post0\<lparr>platforms := [''LINKEDIN'']\<rparr>) 0"
proof -
  have "contentPost world_expired (postId job0) = Some (post0\<lparr>platforms := [''LINKEDIN'']\<rparr>)"
    by (simp add: world_expired_def job0_def)
  moreover have "status (post0\<lparr>platforms := [''LINKEDIN'']\<rparr>) \<noteq> PUBLISHED"
    by (simp add: post0_def)
  moreover have "prisma_error env0 FindUnique = None" "prisma_error env0 UpdateOutcome = None"
    "1000 \<le> now env0"
    by (simp_all add: env0_def)
  moreover have "find (\<lambda>acc. platform acc = platforms (post0\<lparr>platforms := [''LINKEDIN'']\<rparr>) ! 0 \<and> isActive acc)
       (activeAccounts world_expired (post0\<lparr>platforms := [''LINKEDIN'']\<rparr>)) = Some account_expired"
    by (simp add: activeAccounts_def world_expired_def post0_def account_expired_def account0_def)
  moreover have "expiresAt account_expired = Some 1000"
    by (simp add: account_expired_def)
  ultimately show ?thesis
    using expired_credential_no_call [of env0 world_expired job0 "post0\<lparr>platforms := [''LINKEDIN'']\<rparr>"
        0 account_expired 1000 "''LINKEDIN''"]
    by (simp add: job0_def)
qed

text \<open>
  The claim as the spec states it (every platform) fails: an expired Instagram account
  gives the not-implemented error, not an expired-credential one.
\<close>

theorem expired_credential_counterexample:
  "token_expired env0 account_instagram \<and>
   fst (postWorker env0 job0 world_instagram) =
     Inr (Completed ''p1''
            [ResultError ''INSTAGRAM'' ''Instagram publishing not yet implemented''] ''failed'')"
  by (simp add: postWorker_def process_def try_catch_def await_def findUnique_def throw_def ret_def
        update_def world_instagram_def job0_def env0_def post0_def account_instagram_def
        activeAccounts_def publishOne_def dispatch_def publishToInstagram_def
        token_expired_def is_error_def Let_def)


section \<open>Publishers throw\<close>

lemma rejected_iff:
  "rejected en w w' \<longleftrightarrow>
     (\<exists>k. length (calls w) \<le> k \<and> k < length (calls w')
          \<and> isl (axios en (take k (calls w')) (calls w' ! k)))"
  by (auto simp: rejected_def list_ex_iff)

lemma not_rejected_same: "\<not> rejected en w w"
  by (simp add: rejected_iff)

lemma rejected_split:
  assumes "extends w w1" and "extends w1 w2" and "rejected en w w2"
  shows "rejected en w w1 \<or> rejected en w1 w2"
proof -
  obtain cs where w2: "calls w2 = calls w1 @ cs" using assms(2) by (auto simp: extends_def)
  obtain k where k: "length (calls w) \<le> k" "k < length (calls w2)"
    "isl (axios en (take k (calls w2)) (calls w2 ! k))"
    using assms(3) by (auto simp: rejected_iff)
  show ?thesis
  proof (cases "k < length (calls w1)")
    case True
    then have "take k (calls w2) = take k (calls w1)" "calls w2 ! k = calls w1 ! k"
      using w2 by (simp_all add: nth_append)
    then have "rejected en w w1" using k True by (auto simp: rejected_iff)
    then show ?thesis ..
  next
    case False
    then have "length (calls w1) \<le> k" by simp
    then have "rejected en w1 w2" using k(2,3) unfolding rejected_iff by blast
    then show ?thesis ..
  qed
qed

lemma strict_ret: "strict en (ret a)"
  by (simp add: strict_def ret_def extends_refl not_rejected_same)

lemma strict_throw: "strict en (throw e)"
  by (simp add: strict_def throw_def extends_refl)

lemma strict_axios_request: "strict en (axios_request en rq)"
proof -
  have "extends w (w\<lparr>calls := calls w @ [rq]\<rparr>)" for w :: world
    by (auto simp: extends_def)
  moreover have "rejected en w (w\<lparr>calls := calls w @ [rq]\<rparr>) \<Longrightarrow> isl (axios en (calls w) rq)" for w
    by (auto simp: rejected_iff less_Suc_eq_le)
  ultimately show ?thesis by (simp add: strict_def axios_request_def)
qed

lemma strict_await:
  assumes m: "strict en m" and f: "\<And>a. strict en (f a)"
  shows "strict en (await m f)"
  unfolding strict_def
proof (intro allI)
  fix w
  obtain r w1 where mw: "m w = (r, w1)" by (cases "m w")
  have "extends w (snd (m w)) \<and> (rejected en w (snd (m w)) \<longrightarrow> isl (fst (m w)))"
    using m unfolding strict_def by blast
  then have e1: "extends w w1" and s1: "rejected en w w1 \<Longrightarrow> isl r"
    using mw by simp_all
  show "extends w (snd (await m f w)) \<and> (rejected en w (snd (await m f w)) \<longrightarrow> isl (fst (await m f w)))"
  proof (cases r)
    case (Inl e)
    then show ?thesis using mw e1 by (simp add: await_def)
  next
    case (Inr a)
    obtain r2 w2 where fw: "f a w1 = (r2, w2)" by (cases "f a w1")
    have "extends w1 (snd (f a w1)) \<and> (rejected en w1 (snd (f a w1)) \<longrightarrow> isl (fst (f a w1)))"
      using f [of a] unfolding strict_def by blast
    then have e2: "extends w1 w2" and s2: "rejected en w1 w2 \<Longrightarrow> isl r2"
      using fw by simp_all
    have run: "await m f w = (r2, w2)" using mw Inr fw by (simp add: await_def)
    have "isl r2" if "rejected en w w2"
      using rejected_split [OF e1 e2 that] s1 s2 Inr by auto
    then show ?thesis using run e1 e2 by (auto intro: extends_trans)
  qed
qed

lemma strict_rethrow:
  assumes m: "strict en m"
  shows "strict en (try_catch m (\<lambda>error. throw (g error)))"
  unfolding strict_def
proof (intro allI)
  fix w
  obtain r w1 where mw: "m w = (r, w1)" by (cases "m w")
  have "extends w (snd (m w)) \<and> (rejected en w (snd (m w)) \<longrightarrow> isl (fst (m w)))"
    using m unfolding strict_def by blast
  then have e1: "extends w w1" and s1: "rejected en w w1 \<Longrightarrow> isl r"
    using mw by simp_all
  show "extends w (snd (try_catch m (\<lambda>error. throw (g error)) w)) \<and>
    (rejected en w (snd (try_catch m (\<lambda>error. throw (g error)) w))
       \<longrightarrow> isl (fst (try_catch m (\<lambda>error. throw (g error)) w)))"
    using mw e1 s1 by (cases r) (auto simp: try_catch_def throw_def)
qed

lemma strict_getUserId: "strict en (getUserId en token)"
  by (simp add: getUserId_def axios_get_def strict_await strict_axios_request strict_ret)

lemma strict_uploadMediaToLinkedIn: "strict en (uploadMediaToLinkedIn en mediaPath token)"
  unfolding uploadMediaToLinkedIn_def axios_post_def
  by (intro strict_rethrow strict_await strict_getUserId strict_axios_request)
     (auto split: sum.splits intro!: strict_throw strict_await strict_axios_request strict_ret)

lemma strict_publishToLinkedIn: "strict en (publishToLinkedIn en p acc)"
  unfolding publishToLinkedIn_def axios_post_def axios_get_def Let_def
  by (auto intro!: strict_rethrow strict_await strict_axios_request strict_throw strict_ret
        strict_uploadMediaToLinkedIn)

lemma publishToLinkedIn_wraps:
  assumes "fst (publishToLinkedIn en p acc w) = Inl e"
  shows "\<exists>detail. e = JsError (''LinkedIn publishing failed: '' @ detail) None"
  using assms unfolding publishToLinkedIn_def try_catch_def throw_def
  by (auto split: prod.splits sum.splits)


lemma publishToLinkedIn_expired:
  "token_expired en acc \<Longrightarrow>
   publishToLinkedIn en p acc w =
     (Inl (JsError ''LinkedIn publishing failed: LinkedIn access token expired'' None), w)"
  by (simp add: publishToLinkedIn_def try_catch_def throw_def or_else_def)

text \<open>
  Claim C7, as the code has it. A publisher reports a failure by throwing, never by
  returning an error result. \<^verbatim>\<open>publishToLinkedIn\<close> throws
  \<^verbatim>\<open>LinkedIn publishing failed: <detail>\<close> whenever the token has expired or the remote
  side rejects any request it sends (a rate limit, a policy violation and an
  authentication failure are all such rejections); the publishers of Instagram, TikTok
  and Facebook throw at once, whatever the post and the account, and send nothing.
\<close>

theorem publishers_throw:
  "(token_expired en acc \<or> rejected en w (snd (publishToLinkedIn en p acc w)) \<longrightarrow>
      (\<exists>detail. fst (publishToLinkedIn en p acc w)
         = Inl (JsError (''LinkedIn publishing failed: '' @ detail) None))) \<and>
   publishToInstagram en p acc w = (Inl (JsError ''Instagram publishing not yet implemented'' None), w) \<and>
   publishToTikTok en p acc w = (Inl (JsError ''TikTok publishing not yet implemented'' None), w) \<and>
   publishToFacebook en p acc w = (Inl (JsError ''Facebook publishing not yet implemented'' None), w)"
proof (intro conjI impI)
  assume failure: "token_expired en acc \<or> rejected en w (snd (publishToLinkedIn en p acc w))"
  have "isl (fst (publishToLinkedIn en p acc w))"
  proof (cases "token_expired en acc")
    case True
    then show ?thesis by (simp add: publishToLinkedIn_expired)
  next
    case False
    then have "rejected en w (snd (publishToLinkedIn en p acc w))" using failure by simp
    then show ?thesis using strict_publishToLinkedIn [of en p acc] unfolding strict_def by blast
  qed
  then obtain e where "fst (publishToLinkedIn en p acc w) = Inl e"
    by (cases "fst (publishToLinkedIn en p acc w)") auto
  then show "\<exists>detail. fst (publishToLinkedIn en p acc w)
         = Inl (JsError (''LinkedIn publishing failed: '' @ detail) None)"
    using publishToLinkedIn_wraps [of en p acc w e] by auto
qed (simp_all add: publishToInstagram_def publishToTikTok_def publishToFacebook_def throw_def)

theorem publishers_throw_witness:
  "rejected env_limited world0 (snd (publishToLinkedIn env_limited post0 account0 world0)) \<and>
   (\<exists>detail. fst (publishToLinkedIn env_limited post0 account0 world0)
      = Inl (JsError (''LinkedIn publishing failed: '' @ detail) None))"
proof -
  have rej: "rejected env_limited world0 (snd (publishToLinkedIn env_limited post0 account0 world0))"
    by (simp add: rejected_def world0_def post0_def account0_def env0_def env_limited_def
          publishToLinkedIn_def try_catch_def await_def ret_def throw_def token_expired_def
          axios_get_def axios_post_def axios_request_def LINKEDIN_apiUrl_def Let_def)
  then show ?thesis
    using publishers_throw [of env_limited account0 world0 post0] by blast
qed

text \<open>
  The claim as the spec states it (a publisher returns an error result for an expected
  remote failure) fails: rate-limited, the LinkedIn publisher throws, and so does the
  Instagram publisher on any call.
\<close>

theorem publisher_error_result_counterexample:
  "fst (publishToLinkedIn env_limited post0 account0 world0)
     = Inl (JsError ''LinkedIn publishing failed: Too many requests'' None) \<and>
   fst (publishToInstagram env0 post0 account_instagram world0)
     = Inl (JsError ''Instagram publishing not yet implemented'' None)"
  by (simp add: world0_def post0_def account0_def env0_def env_limited_def
        publishToLinkedIn_def publishToInstagram_def try_catch_def await_def ret_def throw_def
        token_expired_def axios_get_def axios_post_def axios_request_def LINKEDIN_apiUrl_def
        or_else_def Let_def)


section \<open>Rescheduling\<close>

text \<open>
  Claim C9, evaluated. A post is created at time 1000 with a schedule for 5000, and at
  time 2000 its schedule is moved to 9000. After the creation one job is pending, with
  delay 4000. After the update the post row carries the new schedule, but the pending
  job is still that one, with delay 4000 and not 7000, whether \<^verbatim>\<open>removeRepeatable\<close>
  throws or not: the job added at creation is not removed, and the second \<^verbatim>\<open>add\<close>
  under the same id is ignored.
\<close>

theorem reschedule_keeps_first_job:
  "pending_for (snd (create_post ''u1'' ''p1'' 1000 body_t1 server0)) ''p1''
     = [(Custom ''post-p1'', Some 4000)] \<and>
   map_option scheduledFor
     (db (snd (update_post ''u1'' ''p1'' 2000 body_t2 False
                 (snd (create_post ''u1'' ''p1'' 1000 body_t1 server0)))) ''p1'')
     = Some (Some 9000) \<and>
   pending_for (snd (update_post ''u1'' ''p1'' 2000 body_t2 False
                       (snd (create_post ''u1'' ''p1'' 1000 body_t1 server0)))) ''p1''
     = [(Custom ''post-p1'', Some 4000)] \<and>
   pending_for (snd (update_post ''u1'' ''p1'' 2000 body_t2 True
                       (snd (create_post ''u1'' ''p1'' 1000 body_t1 server0)))) ''p1''
     = [(Custom ''post-p1'', Some 4000)]"
  by (simp add: pending_for_def create_post_def update_post_def queue_add_def
        removeRepeatable_def scheduled_time_def server0_def body_t1_def body_t2_def Let_def)

end
